theory Spec2Isabelle
  imports Complex_Main "HOL-Library.AList"
begin

section \<open>Configuration tables of app.py\<close>

text \<open>
  A Python dict is an insertion-ordered association list: \<open>map_of\<close> looks a key up,
  \<open>AList.update\<close> stores a value (in place when the key is present, at the end otherwise),
  and \<open>list(d)\<close> is the list of keys in insertion order.
\<close>

definition CLASS_NAMES :: "(int \<times> string) list" where
  "CLASS_NAMES =
     [(0, ''Glioma Tumor''),
      (1, ''Meningioma Tumor''),
      (2, ''No-Tumor''),
      (3, ''Pituitary Tumor'')]"

definition SEVERITY_MAPPING :: "(int \<times> string) list" where
  "SEVERITY_MAPPING =
     [(0, ''High Severity''),
      (1, ''Low Severity''),
      (3, ''Medium Severity'')]"

definition dict_get :: "('k \<times> 'v) list \<Rightarrow> 'k \<Rightarrow> 'v \<Rightarrow> 'v" where
  \<comment> \<open>\<open>d.get(k, default)\<close>\<close>
  "dict_get d k dflt = (case map_of d k of None \<Rightarrow> dflt | Some v \<Rightarrow> v)"

definition dict_fromkeys :: "'k list \<Rightarrow> ('k \<times> unit) list" where
  \<comment> \<open>\<open>dict.fromkeys(xs)\<close>: every key of \<open>xs\<close> stored in turn with the value None\<close>
  "dict_fromkeys xs = foldl (\<lambda>d k. AList.update k () d) [] xs"

definition list_of_dict :: "('k \<times> 'v) list \<Rightarrow> 'k list" where
  \<comment> \<open>\<open>list(d)\<close>: the keys in insertion order\<close>
  "list_of_dict d = map fst d"

fun join :: "string \<Rightarrow> string list \<Rightarrow> string" where
  \<comment> \<open>\<open>sep.join(xs)\<close>\<close>
  "join sep [] = []"
| "join sep [x] = x"
| "join sep (x # y # ys) = x @ sep @ join sep (y # ys)"

section \<open>Detections and their interpretation (handle_image, lines 107-127)\<close>

text \<open>
  One detected box: \<open>cls\<close> is the class index the handler reads as \<open>int(box.cls[0])\<close>,
  \<open>conf\<close> the confidence score of the detector.
\<close>

record box =
  cls :: int
  conf :: real

record findings =
  detected_tumors :: "string list"
  detected_tumor_names_for_chatbot :: "string list"
  no_tumor_case_detected :: bool

definition no_findings :: findings where
  \<comment> \<open>lines 108-110\<close>
  "no_findings =
     \<lparr>detected_tumors = [], detected_tumor_names_for_chatbot = [],
      no_tumor_case_detected = False\<rparr>"

definition box_step :: "findings \<Rightarrow> box \<Rightarrow> findings" where
  \<comment> \<open>the body of the loop, lines 115-123\<close>
  "box_step f b =
     (let class_id = cls b;
          class_name = dict_get CLASS_NAMES class_id ''Unknown Type''
      in if class_name = ''No-Tumor''
         then f\<lparr>no_tumor_case_detected := True\<rparr>
         else
           (let severity = dict_get SEVERITY_MAPPING class_id ''Unknown Severity''
            in f\<lparr>detected_tumors :=
                   detected_tumors f @ [class_name @ '' ('' @ severity @ '')''],
                 detected_tumor_names_for_chatbot :=
                   detected_tumor_names_for_chatbot f @ [class_name]\<rparr>))"

definition scan_boxes :: "box list option \<Rightarrow> findings" where
  \<comment> \<open>lines 108-123; \<open>result.boxes\<close> may be None, and the loop is guarded by
      \<open>if boxes and len(boxes) > 0\<close>\<close>
  "scan_boxes boxes =
     (case boxes of
        None \<Rightarrow> no_findings
      | Some bs \<Rightarrow>
          if bs \<noteq> [] \<and> length bs > 0 then foldl box_step no_findings bs
          else no_findings)"

definition interpret_boxes :: "box list option \<Rightarrow> findings" where
  \<comment> \<open>lines 108-127, the interpretation of the detections: the loop, then
      \<open>list(dict.fromkeys(...))\<close> on both lists\<close>
  "interpret_boxes boxes =
     (let f = scan_boxes boxes
      in f\<lparr>detected_tumors := list_of_dict (dict_fromkeys (detected_tumors f)),
           detected_tumor_names_for_chatbot :=
             list_of_dict (dict_fromkeys (detected_tumor_names_for_chatbot f))\<rparr>)"

section \<open>Messages\<close>

definition NL :: string where
  "NL = [CHR 0x0A]"

definition bullet :: string where
  \<comment> \<open>the bytes of the bullet literal of line 134, as they stand in the file\<close>
  "bullet = [CHR 0xC3, CHR 0xA2, CHR 0xE2, CHR 0x82, CHR 0xAC, CHR 0xC2, CHR 0xA2]"

definition scan_received_text :: string where
  \<comment> \<open>line 84\<close>
  "scan_received_text =
     ''Scan received. Analyzing... '' @
     [CHR 0xC3, CHR 0xB0, CHR 0xC5, CHR 0xB8, CHR 0xC2, CHR 0xA9, CHR 0xC2, CHR 0xBA]"

definition findings_caption :: "string list \<Rightarrow> string" where
  \<comment> \<open>lines 134-135\<close>
  "findings_caption tumors =
     (let findings_text = join NL (map (\<lambda>finding. bullet @ '' '' @ finding) tumors)
      in ''**Analysis Complete.**'' @ NL @ NL @ ''Potential findings:'' @ NL @
         findings_text @ NL @ NL @
         ''You can now ask me questions for more information.'')"

definition no_tumor_caption :: string where
  \<comment> \<open>line 137\<close>
  "no_tumor_caption = ''Analysis complete. The scan indicates no tumor was found.''"

definition nothing_detected_caption :: string where
  \<comment> \<open>line 140\<close>
  "nothing_detected_caption =
     ''Analysis complete. I did not detect any of the conditions I'm trained to recognize in this scan.''"

definition retry_text :: string where
  \<comment> \<open>line 149\<close>
  "retry_text =
     ''Sorry, I encountered an error during the analysis. Please try sending the scan again.''"

definition thinking_text :: string where
  \<comment> \<open>line 157\<close>
  "thinking_text =
     ''Consulting knowledge base... '' @
     [CHR 0xC3, CHR 0xB0, CHR 0xC5, CHR 0xB8, CHR 0xC2, CHR 0xA7, CHR 0xC2, CHR 0xA0]"

definition disclaimer :: string where
  \<comment> \<open>line 171\<close>
  "disclaimer =
     NL @ NL @
     ''**Important Disclaimer:** I am an AI assistant, not a medical professional. This information is for educational purposes only. Please consult a qualified doctor for diagnosis and medical advice.''"

definition fallback_text :: string where
  \<comment> \<open>line 182, before the disclaimer is appended\<close>
  "fallback_text =
     ''I'm having trouble accessing my knowledge base right now. Please try again later.''"

section \<open>Session memory and the outside world\<close>

text \<open>
  \<open>context.user_data\<close> is a dict from keys to Python values; the one key the handlers use
  holds None or a list of strings. An absent key is \<open>None\<close> of the map, a stored Python
  None is \<open>Some None\<close>.
\<close>

type_synonym user_data = "string \<rightharpoonup> string list option"

definition LAST :: string where
  "LAST = ''last_detected_tumors''"

definition user_data_get :: "user_data \<Rightarrow> string \<Rightarrow> string list option" where
  \<comment> \<open>\<open>user_data.get(key)\<close>: None when the key is absent\<close>
  "user_data_get ud k = (case ud k of None \<Rightarrow> None | Some v \<Rightarrow> v)"

text \<open>
  What a call to a collaborator raises, with its message. \<open>Exn\<close> is an instance of
  Exception, which the \<open>except Exception\<close> clauses of the handlers catch; \<open>BaseExn\<close> is
  one that is not (KeyboardInterrupt, SystemExit, asyncio.CancelledError), which they let
  through.
\<close>

datatype exn = Exn string | BaseExn string

fun is_Exception :: "exn \<Rightarrow> bool" where
  "is_Exception (Exn m) = True"
| "is_Exception (BaseExn m) = False"

text \<open>
  The calls a handler issues to the chat transport and to the hosted model, in order,
  whether they return or raise. Logging is left out.
\<close>

datatype call =
    SendMessage string
  | ReplyPhoto string
  | ReplyText string
  | EditMessageText string
  | GenerateContent string

record outcome =
  calls :: "call list"
  data :: user_data
  escaped :: "exn option"

text \<open>
  What the collaborators do during one image event: for each awaited call, whether it
  raises (\<open>Some e\<close>) or returns; the detector returns the boxes of \<open>results[0]\<close>.
\<close>

record image_world =
  ack_send :: "exn option"              \<comment> \<open>line 84, send_message\<close>
  download :: "exn option"              \<comment> \<open>lines 87-91, get_file, download, Image.open\<close>
  detect :: "exn + box list option"     \<comment> \<open>lines 94-95, the model call and results[0]\<close>
  render :: "exn option"                \<comment> \<open>lines 98-105, plot, fromarray, save\<close>
  photo_reply :: "exn option"           \<comment> \<open>line 143, reply_photo\<close>
  error_reply :: "exn option"           \<comment> \<open>line 149, reply_text in the except clause\<close>

record text_world =
  thinking_send :: "exn option"               \<comment> \<open>line 157, send_message\<close>
  generate_content :: "string \<Rightarrow> exn + string"  \<comment> \<open>lines 174-175, the call and response.text\<close>
  answer_edit :: "exn option"                 \<comment> \<open>line 177, edit_message_text\<close>
  fallback_edit :: "exn option"               \<comment> \<open>line 183, edit_message_text in the except clause\<close>

section \<open>handle_image\<close>

definition store_and_caption :: "findings \<Rightarrow> user_data \<Rightarrow> string \<times> user_data" where
  \<comment> \<open>lines 130-141\<close>
  "store_and_caption f ud =
     (let ud1 = ud(LAST \<mapsto> Some (detected_tumor_names_for_chatbot f))
      in if detected_tumors f \<noteq> [] then (findings_caption (detected_tumors f), ud1)
         else if no_tumor_case_detected f then (no_tumor_caption, ud1(LAST \<mapsto> None))
         else (nothing_detected_caption, ud1(LAST \<mapsto> None)))"

definition image_try :: "image_world \<Rightarrow> user_data \<Rightarrow> outcome" where
  \<comment> \<open>the try block, lines 84-145; \<open>escaped\<close> is the exception that leaves the block\<close>
  "image_try w ud =
     (case ack_send w of
        Some e \<Rightarrow> \<lparr>calls = [SendMessage scan_received_text], data = ud, escaped = Some e\<rparr>
      | None \<Rightarrow>
     (case download w of
        Some e \<Rightarrow> \<lparr>calls = [SendMessage scan_received_text], data = ud, escaped = Some e\<rparr>
      | None \<Rightarrow>
     (case detect w of
        Inl e \<Rightarrow> \<lparr>calls = [SendMessage scan_received_text], data = ud, escaped = Some e\<rparr>
      | Inr boxes \<Rightarrow>
     (case render w of
        Some e \<Rightarrow> \<lparr>calls = [SendMessage scan_received_text], data = ud, escaped = Some e\<rparr>
      | None \<Rightarrow>
     (case store_and_caption (interpret_boxes boxes) ud of
        (caption_text, ud') \<Rightarrow>
          \<lparr>calls = [SendMessage scan_received_text, ReplyPhoto caption_text],
           data = ud', escaped = photo_reply w\<rparr>)))))"

definition handle_image :: "image_world \<Rightarrow> user_data \<Rightarrow> outcome" where
  \<comment> \<open>lines 80-149: the try block and \<open>except Exception\<close>, which replies and lets
      anything that is not an Exception leave the handler\<close>
  "handle_image w ud =
     (let r = image_try w ud
      in case escaped r of
           None \<Rightarrow> r
         | Some e \<Rightarrow>
             if is_Exception e
             then r\<lparr>calls := calls r @ [ReplyText retry_text], escaped := error_reply w\<rparr>
             else r)"

section \<open>handle_text\<close>

definition prompt_context :: "string list option \<Rightarrow> string" where
  \<comment> \<open>lines 161-165; \<open>if last_tumors\<close> holds for a list that is not empty, and neither for
      None nor for the empty list\<close>
  "prompt_context last_tumors =
     (case last_tumors of
        Some (x # xs) \<Rightarrow>
          (let tumor_list = join '', '' (x # xs)
           in ''A user's brain scan analysis has indicated a potential '' @ [CHR 0x27] @
              tumor_list @ [CHR 0x27] @ ''. '' @
              ''The user is now asking a follow-up question.'')
      | _ \<Rightarrow> ''A user is asking a general question about brain tumors.'')"

definition build_prompt :: "string list option \<Rightarrow> string \<Rightarrow> string" where
  \<comment> \<open>lines 167-169\<close>
  "build_prompt last_tumors user_question =
     ''You are a helpful medical information AI. '' @ prompt_context last_tumors @ '' '' @
     ''Answer their question in a clear, simple, and reassuring tone. Provide general information only.'' @
     NL @ NL @
     ''User's Question: '' @ [CHR 0x27] @ user_question @ [CHR 0x27]"

definition handle_text :: "text_world \<Rightarrow> string \<Rightarrow> user_data \<Rightarrow> outcome" where
  \<comment> \<open>lines 152-183; the first message is sent outside the try block, and
      \<open>except Exception\<close> lets anything that is not an Exception leave the handler\<close>
  "handle_text w user_question ud =
     (case thinking_send w of
        Some e \<Rightarrow> \<lparr>calls = [SendMessage thinking_text], data = ud, escaped = Some e\<rparr>
      | None \<Rightarrow>
          (let last_tumors = user_data_get ud LAST;
               prompt = build_prompt last_tumors user_question
           in case generate_content w prompt of
                Inr text \<Rightarrow>
                  (let bot_answer = text @ disclaimer
                   in case answer_edit w of
                        None \<Rightarrow>
                          \<lparr>calls = [SendMessage thinking_text, GenerateContent prompt,
                                    EditMessageText bot_answer],
                           data = ud, escaped = None\<rparr>
                      | Some e \<Rightarrow>
                          if is_Exception e
                          then \<lparr>calls = [SendMessage thinking_text, GenerateContent prompt,
                                         EditMessageText bot_answer,
                                         EditMessageText (fallback_text @ disclaimer)],
                                data = ud, escaped = fallback_edit w\<rparr>
                          else \<lparr>calls = [SendMessage thinking_text, GenerateContent prompt,
                                         EditMessageText bot_answer],
                                data = ud, escaped = Some e\<rparr>)
              | Inl e \<Rightarrow>
                  if is_Exception e
                  then \<lparr>calls = [SendMessage thinking_text, GenerateContent prompt,
                                 EditMessageText (fallback_text @ disclaimer)],
                        data = ud, escaped = fallback_edit w\<rparr>
                  else \<lparr>calls = [SendMessage thinking_text, GenerateContent prompt],
                        data = ud, escaped = Some e\<rparr>))"

section \<open>A session: a sequence of events\<close>

datatype event = Image image_world | Text text_world string

fun handle :: "event \<Rightarrow> user_data \<Rightarrow> outcome" where
  "handle (Image w) ud = handle_image w ud"
| "handle (Text w q) ud = handle_text w q ud"

fun run :: "event list \<Rightarrow> user_data \<Rightarrow> user_data" where
  \<comment> \<open>the events of one session in arrival order; the memory survives a handler that raises\<close>
  "run [] ud = ud"
| "run (ev # evs) ud = run evs (data (handle ev ud))"

section \<open>Notions used to state the properties\<close>

text \<open>The label and the displayed entry the loop body computes for a class index.\<close>

definition class_name_of :: "int \<Rightarrow> string" where
  "class_name_of c = dict_get CLASS_NAMES c ''Unknown Type''"

definition severity_of :: "int \<Rightarrow> string" where
  "severity_of c = dict_get SEVERITY_MAPPING c ''Unknown Severity''"

definition display_of :: "int \<Rightarrow> string" where
  "display_of c = class_name_of c @ '' ('' @ severity_of c @ '')''"

text \<open>
  Deduplication as the specification words it: the first occurrence of every element is
  kept, in the order of the input. \<open>seen\<close> holds the elements met so far.
\<close>

fun keep_first :: "'a list \<Rightarrow> 'a list \<Rightarrow> 'a list" where
  "keep_first seen [] = []"
| "keep_first seen (x # xs) =
     (if x \<in> set seen then keep_first seen xs else x # keep_first (x # seen) xs)"

definition dedup_first :: "'a list \<Rightarrow> 'a list" where
  "dedup_first xs = keep_first [] xs"

text \<open>The detections with the later boxes of an already detected class index removed.\<close>

fun first_of_class :: "int list \<Rightarrow> box list \<Rightarrow> box list" where
  "first_of_class seen [] = []"
| "first_of_class seen (b # bs) =
     (if cls b \<in> set seen then first_of_class seen bs
      else b # first_of_class (cls b # seen) bs)"

definition genuine_ids :: "box list option \<Rightarrow> int list" where
  \<comment> \<open>the class indices of the boxes, those of the reserved class 2 left out\<close>
  "genuine_ids boxes = [c \<leftarrow> map cls (case boxes of None \<Rightarrow> [] | Some bs \<Rightarrow> bs). c \<noteq> 2]"

definition labels_of :: "box list option \<Rightarrow> string list" where
  "labels_of boxes = dedup_first (map class_name_of (genuine_ids boxes))"

definition memory_after :: "box list option \<Rightarrow> string list option" where
  \<comment> \<open>what one analysis leaves in the memory: the labels, or None when there are none\<close>
  "memory_after boxes = (if labels_of boxes = [] then None else Some (labels_of boxes))"

definition analysed :: "image_world \<Rightarrow> box list option option" where
  \<comment> \<open>the boxes an image event interprets, when no call before line 107 raises\<close>
  "analysed w =
     (if ack_send w = None \<and> download w = None \<and> render w = None
      then (case detect w of Inr boxes \<Rightarrow> Some boxes | Inl e \<Rightarrow> None)
      else None)"


fun last_analysis :: "event list \<Rightarrow> box list option option" where
  \<comment> \<open>the boxes of the most recent image event of the session that was analysed\<close>
  "last_analysis [] = None"
| "last_analysis (ev # evs) =
     (case last_analysis evs of
        Some boxes \<Rightarrow> Some boxes
      | None \<Rightarrow> (case ev of Image w \<Rightarrow> analysed w | Text w q \<Rightarrow> None))"

definition calm :: "box list option \<Rightarrow> image_world" where
  \<comment> \<open>an image event in which no call raises and the detector returns \<open>boxes\<close>\<close>
  "calm boxes =
     \<lparr>ack_send = None, download = None, detect = Inr boxes, render = None,
      photo_reply = None, error_reply = None\<rparr>"

section \<open>Deduplication and the loop in closed form\<close>

lemma remdups_snoc: "remdups (ys @ [x]) = [y \<leftarrow> remdups ys. y \<noteq> x] @ [x]"
  by (induction ys) auto

lemma keep_first_remdups:
  "keep_first seen xs = rev (remdups (rev [x \<leftarrow> xs. x \<notin> set seen]))"
proof (induction xs arbitrary: seen)
  case Nil
  show ?case by simp
next
  case (Cons x xs)
  show ?case
  proof (cases "x \<in> set seen")
    case True
    then show ?thesis using Cons.IH [of seen] by simp
  next
    case False
    have f: "[y \<leftarrow> xs. y \<notin> set (x # seen)] = [y \<leftarrow> [y \<leftarrow> xs. y \<notin> set seen]. y \<noteq> x]"
      by (induction xs) auto
    show ?thesis
      using False Cons.IH [of "x # seen"]
      by (simp add: remdups_snoc remdups_filter rev_filter conj_commute)
  qed
qed

lemma keep_first_cong: "set s = set t \<Longrightarrow> keep_first s xs = keep_first t xs"
  by (simp add: keep_first_remdups)

lemma dedup_first_remdups: "dedup_first xs = rev (remdups (rev xs))"
  by (simp add: dedup_first_def keep_first_remdups)

lemma fromkeys_fold:
  "map fst (foldl (\<lambda>d k. AList.update k () d) d xs) = map fst d @ keep_first (map fst d) xs"
proof (induction xs arbitrary: d)
  case Nil
  show ?case by simp
next
  case (Cons x xs)
  show ?case
  proof (cases "x \<in> set (map fst d)")
    case True
    then show ?thesis using Cons.IH [of "AList.update x () d"] by (simp add: update_keys)
  next
    case False
    have "keep_first (map fst d @ [x]) xs = keep_first (x # map fst d) xs"
      by (rule keep_first_cong) auto
    then show ?thesis
      using False Cons.IH [of "AList.update x () d"] by (simp add: update_keys)
  qed
qed

lemma list_fromkeys: "list_of_dict (dict_fromkeys xs) = dedup_first xs"
  by (simp add: list_of_dict_def dict_fromkeys_def dedup_first_def fromkeys_fold)

lemma class_name_reserved: "(class_name_of c = ''No-Tumor'') = (c = 2)"
  by (simp add: class_name_of_def dict_get_def CLASS_NAMES_def)

lemma box_step_eq:
  "box_step f b =
     (if cls b = 2 then f\<lparr>no_tumor_case_detected := True\<rparr>
      else f\<lparr>detected_tumors := detected_tumors f @ [display_of (cls b)],
             detected_tumor_names_for_chatbot :=
               detected_tumor_names_for_chatbot f @ [class_name_of (cls b)]\<rparr>)"
  using class_name_reserved [of "cls b"]
  by (simp add: box_step_def Let_def display_of_def severity_of_def class_name_of_def)

lemma foldl_box_step:
  "foldl box_step f bs =
     \<lparr>detected_tumors = detected_tumors f @ map display_of [c \<leftarrow> map cls bs. c \<noteq> 2],
      detected_tumor_names_for_chatbot =
        detected_tumor_names_for_chatbot f @ map class_name_of [c \<leftarrow> map cls bs. c \<noteq> 2],
      no_tumor_case_detected = (no_tumor_case_detected f \<or> 2 \<in> set (map cls bs))\<rparr>"
proof (induction bs arbitrary: f)
  case Nil
  show ?case by simp
next
  case (Cons b bs)
  have "foldl box_step f (b # bs) = foldl box_step (box_step f b) bs"
    by simp
  also have "\<dots> =
     \<lparr>detected_tumors =
        detected_tumors (box_step f b) @ map display_of [c \<leftarrow> map cls bs. c \<noteq> 2],
      detected_tumor_names_for_chatbot =
        detected_tumor_names_for_chatbot (box_step f b) @
        map class_name_of [c \<leftarrow> map cls bs. c \<noteq> 2],
      no_tumor_case_detected =
        (no_tumor_case_detected (box_step f b) \<or> 2 \<in> set (map cls bs))\<rparr>"
    by (rule Cons.IH)
  finally have step: "foldl box_step f (b # bs) =
     \<lparr>detected_tumors =
        detected_tumors (box_step f b) @ map display_of [c \<leftarrow> map cls bs. c \<noteq> 2],
      detected_tumor_names_for_chatbot =
        detected_tumor_names_for_chatbot (box_step f b) @
        map class_name_of [c \<leftarrow> map cls bs. c \<noteq> 2],
      no_tumor_case_detected =
        (no_tumor_case_detected (box_step f b) \<or> 2 \<in> set (map cls bs))\<rparr>" .
  show ?case
    unfolding step by (cases "cls b = 2") (simp_all add: box_step_eq)
qed

lemma scan_boxes_eq:
  "scan_boxes boxes =
     \<lparr>detected_tumors = map display_of (genuine_ids boxes),
      detected_tumor_names_for_chatbot = map class_name_of (genuine_ids boxes),
      no_tumor_case_detected = (\<exists>bs. boxes = Some bs \<and> 2 \<in> set (map cls bs))\<rparr>"
  by (cases boxes) (simp_all add: scan_boxes_def genuine_ids_def foldl_box_step no_findings_def)

lemma interpret_boxes_eq:
  "interpret_boxes boxes =
     \<lparr>detected_tumors = dedup_first (map display_of (genuine_ids boxes)),
      detected_tumor_names_for_chatbot = labels_of boxes,
      no_tumor_case_detected = (\<exists>bs. boxes = Some bs \<and> 2 \<in> set (map cls bs))\<rparr>"
  by (simp add: interpret_boxes_def Let_def scan_boxes_eq list_fromkeys labels_of_def)

lemma dedup_first_Nil: "(dedup_first xs = []) = (xs = [])"
  by (cases xs) (simp_all add: dedup_first_def)

lemma dedup_first_set: "set (dedup_first xs) = set xs"
  by (simp add: dedup_first_remdups)

lemma dedup_first_distinct: "distinct (dedup_first xs)"
  by (simp add: dedup_first_remdups)

lemma map_cls_first_of_class: "map cls (first_of_class seen ds) = keep_first seen (map cls ds)"
  by (induction ds arbitrary: seen) simp_all

lemma dedup_first_map_filter:
  "dedup_first (map g [c \<leftarrow> dedup_first cs. P c]) = dedup_first (map g [c \<leftarrow> cs. P c])"
proof -
  have "remdups (map g [c \<leftarrow> remdups (rev cs). P c]) = remdups (map g [c \<leftarrow> rev cs. P c])"
    by (simp add: remdups_filter [symmetric] remdups_map_remdups)
  then show ?thesis
    by (simp add: dedup_first_remdups rev_map rev_filter)
qed

section \<open>The image handler in closed form\<close>

lemma genuine_ids_Some: "genuine_ids (Some ds) = [c \<leftarrow> map cls ds. c \<noteq> 2]"
  by (simp add: genuine_ids_def)

lemma store_and_caption_eq:
  "store_and_caption (interpret_boxes boxes) ud =
     (if labels_of boxes \<noteq> []
      then (findings_caption (dedup_first (map display_of (genuine_ids boxes))),
            ud(LAST \<mapsto> Some (labels_of boxes)))
      else if (\<exists>bs. boxes = Some bs \<and> 2 \<in> set (map cls bs))
      then (no_tumor_caption, ud(LAST \<mapsto> None))
      else (nothing_detected_caption, ud(LAST \<mapsto> None)))"
  by (auto simp add: store_and_caption_def Let_def interpret_boxes_eq labels_of_def
        dedup_first_Nil)

lemma image_try_calm:
  "image_try (calm boxes) ud =
     \<lparr>calls = [SendMessage scan_received_text,
               ReplyPhoto (fst (store_and_caption (interpret_boxes boxes) ud))],
      data = snd (store_and_caption (interpret_boxes boxes) ud), escaped = None\<rparr>"
  by (simp add: image_try_def calm_def split: prod.splits)

lemma handle_image_calm:
  "handle_image (calm boxes) ud =
     \<lparr>calls = [SendMessage scan_received_text,
               ReplyPhoto (fst (store_and_caption (interpret_boxes boxes) ud))],
      data = snd (store_and_caption (interpret_boxes boxes) ud), escaped = None\<rparr>"
  by (simp add: handle_image_def image_try_calm)

lemma data_handle_image:
  "data (handle_image w ud) =
     (case analysed w of None \<Rightarrow> ud | Some boxes \<Rightarrow> ud(LAST \<mapsto> memory_after boxes))"
proof -
  have "data (handle_image w ud) = data (image_try w ud)"
    by (simp add: handle_image_def Let_def split: option.splits)
  also have "\<dots> =
     (case analysed w of
        None \<Rightarrow> ud
      | Some boxes \<Rightarrow> snd (store_and_caption (interpret_boxes boxes) ud))"
    by (auto simp add: analysed_def image_try_def split: option.splits sum.splits prod.splits)
  finally show ?thesis
    by (simp add: store_and_caption_eq memory_after_def split: option.splits)
qed

section \<open>The memory along a session\<close>

lemma data_handle_text: "data (handle_text w q ud) = ud"
  by (simp add: handle_text_def Let_def split: option.splits sum.splits)

lemma run_other_keys: "k \<noteq> LAST \<Longrightarrow> run evs ud k = ud k"
proof (induction evs arbitrary: ud)
  case Nil
  show ?case by simp
next
  case (Cons ev evs)
  have "data (handle ev ud) k = ud k"
    using Cons.prems
    by (cases ev) (simp_all add: data_handle_text data_handle_image split: option.splits)
  then show ?case
    using Cons.IH [OF Cons.prems, of "data (handle ev ud)"] by simp
qed

lemma run_memory:
  "user_data_get (run evs ud) LAST =
     (case last_analysis evs of None \<Rightarrow> user_data_get ud LAST | Some boxes \<Rightarrow> memory_after boxes)"
proof (induction evs arbitrary: ud)
  case Nil
  show ?case by simp
next
  case (Cons ev evs)
  show ?case
  proof (cases "last_analysis evs")
    case (Some boxes)
    then show ?thesis
      using Cons.IH [of "data (handle ev ud)"] by simp
  next
    case None
    have "user_data_get (data (handle ev ud)) LAST =
            (case ev of
               Image w \<Rightarrow> (case analysed w of None \<Rightarrow> user_data_get ud LAST
                                            | Some boxes \<Rightarrow> memory_after boxes)
             | Text w q \<Rightarrow> user_data_get ud LAST)"
      by (cases ev)
         (simp_all add: data_handle_text data_handle_image user_data_get_def split: option.splits)
    then show ?thesis
      using None Cons.IH [of "data (handle ev ud)"]
      by (simp split: event.splits option.splits)
  qed
qed

section \<open>Properties of the image handler\<close>

text \<open>
  C1. A detection sequence that holds a box of a class other than the reserved class 2
  and a box of class 2: the findings are the entries of the other classes only, each
  label with the severity of its class, first occurrences kept; the no-tumor flag is set;
  the caption is the one of the findings branch and the memory becomes the list of
  distinct labels, in which the reserved label does not occur. The caption is given in
  full: the heading, one bulleted line for each finding, the closing sentence; it is
  neither the no-tumor message nor the message that nothing was detected.
\<close>

theorem mixed_detections:
  assumes gen: "\<exists>b \<in> set ds. cls b \<noteq> 2" and res: "\<exists>b \<in> set ds. cls b = 2"
  shows "detected_tumors (interpret_boxes (Some ds))
           = dedup_first (map display_of [c \<leftarrow> map cls ds. c \<noteq> 2])
       \<and> detected_tumor_names_for_chatbot (interpret_boxes (Some ds))
           = dedup_first (map class_name_of [c \<leftarrow> map cls ds. c \<noteq> 2])
       \<and> detected_tumor_names_for_chatbot (interpret_boxes (Some ds)) \<noteq> []
       \<and> ''No-Tumor'' \<notin> set (detected_tumor_names_for_chatbot (interpret_boxes (Some ds)))
       \<and> no_tumor_case_detected (interpret_boxes (Some ds))
       \<and> store_and_caption (interpret_boxes (Some ds)) ud
           = (findings_caption (detected_tumors (interpret_boxes (Some ds))),
              ud(LAST \<mapsto> Some (detected_tumor_names_for_chatbot (interpret_boxes (Some ds)))))
       \<and> handle_image (calm (Some ds)) ud
           = \<lparr>calls = [SendMessage scan_received_text,
                       ReplyPhoto (findings_caption (detected_tumors (interpret_boxes (Some ds))))],
              data = ud(LAST \<mapsto> Some (dedup_first (map class_name_of [c \<leftarrow> map cls ds. c \<noteq> 2]))),
              escaped = None\<rparr>
       \<and> calls (handle_image (calm (Some ds)) ud)
           = [SendMessage (''Scan received. Analyzing... '' @
                        [CHR 0xC3, CHR 0xB0, CHR 0xC5, CHR 0xB8, CHR 0xC2, CHR 0xA9, CHR 0xC2, CHR 0xBA]),
              ReplyPhoto (''**Analysis Complete.**'' @ [CHR 0x0A, CHR 0x0A] @ ''Potential findings:'' @ [CHR 0x0A] @
                         join [CHR 0x0A] (map (\<lambda>finding. [CHR 0xC3, CHR 0xA2, CHR 0xE2, CHR 0x82, CHR 0xAC, CHR 0xC2, CHR 0xA2] @ '' '' @ finding)
                           (dedup_first (map display_of [c \<leftarrow> map cls ds. c \<noteq> 2]))) @
                         [CHR 0x0A, CHR 0x0A] @ ''You can now ask me questions for more information.'')]
       \<and> findings_caption (detected_tumors (interpret_boxes (Some ds)))
           \<noteq> ''Analysis complete. The scan indicates no tumor was found.''
       \<and> findings_caption (detected_tumors (interpret_boxes (Some ds)))
           \<noteq> ''Analysis complete. I did not detect any of the conditions I'm trained to recognize in this scan.''"
proof -
  let ?g = "[c \<leftarrow> map cls ds. c \<noteq> 2]"
  have ne: "?g \<noteq> []"
    using gen by (auto simp add: filter_empty_conv)
  have lab: "labels_of (Some ds) = dedup_first (map class_name_of ?g)"
    by (simp add: labels_of_def genuine_ids_Some)
  have lne: "labels_of (Some ds) \<noteq> []"
    using ne by (simp add: lab dedup_first_Nil)
  have "\<forall>c \<in> set ?g. class_name_of c \<noteq> ''No-Tumor''"
    by (simp add: class_name_reserved)
  then have nores: "''No-Tumor'' \<notin> set (dedup_first (map class_name_of ?g))"
    unfolding dedup_first_set by force
  have flag: "2 \<in> set (map cls ds)"
    using res by force
  have sc: "store_and_caption (interpret_boxes (Some ds)) ud
              = (findings_caption (dedup_first (map display_of ?g)),
                 ud(LAST \<mapsto> Some (dedup_first (map class_name_of ?g))))"
    using lne by (simp add: store_and_caption_eq genuine_ids_Some lab)
  have lit: "findings_caption xs
               = ''**Analysis Complete.**'' @ [CHR 0x0A, CHR 0x0A] @ ''Potential findings:'' @ [CHR 0x0A] @
                         join [CHR 0x0A] (map (\<lambda>finding. [CHR 0xC3, CHR 0xA2, CHR 0xE2, CHR 0x82, CHR 0xAC, CHR 0xC2, CHR 0xA2] @ '' '' @ finding)
                           (xs)) @
                         [CHR 0x0A, CHR 0x0A] @ ''You can now ask me questions for more information.''"
    for xs
    by (simp add: findings_caption_def Let_def NL_def bullet_def)
  have ack: "scan_received_text = ''Scan received. Analyzing... '' @
                        [CHR 0xC3, CHR 0xB0, CHR 0xC5, CHR 0xB8, CHR 0xC2, CHR 0xA9, CHR 0xC2, CHR 0xBA]"
    by (simp add: scan_received_text_def)
  have d1: "findings_caption xs \<noteq> ''Analysis complete. The scan indicates no tumor was found.''"
    for xs
    by (simp add: findings_caption_def Let_def)
  have d2: "findings_caption xs \<noteq> ''Analysis complete. I did not detect any of the conditions I'm trained to recognize in this scan.''"
    for xs
    by (simp add: findings_caption_def Let_def)
  have main: "detected_tumors (interpret_boxes (Some ds))
           = dedup_first (map display_of ?g)
       \<and> detected_tumor_names_for_chatbot (interpret_boxes (Some ds))
           = dedup_first (map class_name_of ?g)
       \<and> detected_tumor_names_for_chatbot (interpret_boxes (Some ds)) \<noteq> []
       \<and> ''No-Tumor'' \<notin> set (detected_tumor_names_for_chatbot (interpret_boxes (Some ds)))
       \<and> no_tumor_case_detected (interpret_boxes (Some ds))
       \<and> store_and_caption (interpret_boxes (Some ds)) ud
           = (findings_caption (detected_tumors (interpret_boxes (Some ds))),
              ud(LAST \<mapsto> Some (detected_tumor_names_for_chatbot (interpret_boxes (Some ds)))))
       \<and> handle_image (calm (Some ds)) ud
           = \<lparr>calls = [SendMessage scan_received_text,
                       ReplyPhoto (findings_caption (detected_tumors (interpret_boxes (Some ds))))],
              data = ud(LAST \<mapsto> Some (dedup_first (map class_name_of ?g))),
              escaped = None\<rparr>"
    unfolding handle_image_calm sc
    using lne nores flag
    by (simp add: interpret_boxes_eq lab genuine_ids_Some)
  have dt: "detected_tumors (interpret_boxes (Some ds)) = dedup_first (map display_of ?g)"
    using main by blast
  have cl: "calls (handle_image (calm (Some ds)) ud)
           = [SendMessage (''Scan received. Analyzing... '' @
                        [CHR 0xC3, CHR 0xB0, CHR 0xC5, CHR 0xB8, CHR 0xC2, CHR 0xA9, CHR 0xC2, CHR 0xBA]),
              ReplyPhoto (''**Analysis Complete.**'' @ [CHR 0x0A, CHR 0x0A] @ ''Potential findings:'' @ [CHR 0x0A] @
                         join [CHR 0x0A] (map (\<lambda>finding. [CHR 0xC3, CHR 0xA2, CHR 0xE2, CHR 0x82, CHR 0xAC, CHR 0xC2, CHR 0xA2] @ '' '' @ finding)
                           (dedup_first (map display_of ?g))) @
                         [CHR 0x0A, CHR 0x0A] @ ''You can now ask me questions for more information.'')]"
    unfolding handle_image_calm sc
    by (simp only: outcome.simps fst_conv lit [symmetric] ack [symmetric])
  show ?thesis
    using main cl d1 d2 by blast
qed

text \<open>
  The scenario of C1: two boxes of class 0 and one of class 2 give the single finding
  Glioma Tumor with High Severity, the flag set, the memory holding Glioma Tumor, and the
  photo reply with the caption that lists this finding.
\<close>

theorem mixed_detections_witness:
  "(\<exists>b \<in> set [\<lparr>cls = 0, conf = 0.9\<rparr>, \<lparr>cls = 0, conf = 0.5\<rparr>, \<lparr>cls = 2, conf = 0.99\<rparr>]. cls b \<noteq> 2)
   \<and> (\<exists>b \<in> set [\<lparr>cls = 0, conf = 0.9\<rparr>, \<lparr>cls = 0, conf = 0.5\<rparr>, \<lparr>cls = 2, conf = 0.99\<rparr>]. cls b = 2)
   \<and> detected_tumors (interpret_boxes
         (Some [\<lparr>cls = 0, conf = 0.9\<rparr>, \<lparr>cls = 0, conf = 0.5\<rparr>, \<lparr>cls = 2, conf = 0.99\<rparr>]))
       = [''Glioma Tumor (High Severity)'']
   \<and> detected_tumor_names_for_chatbot (interpret_boxes
         (Some [\<lparr>cls = 0, conf = 0.9\<rparr>, \<lparr>cls = 0, conf = 0.5\<rparr>, \<lparr>cls = 2, conf = 0.99\<rparr>]))
       = [''Glioma Tumor'']
   \<and> no_tumor_case_detected (interpret_boxes
         (Some [\<lparr>cls = 0, conf = 0.9\<rparr>, \<lparr>cls = 0, conf = 0.5\<rparr>, \<lparr>cls = 2, conf = 0.99\<rparr>]))
   \<and> data (handle_image
         (calm (Some [\<lparr>cls = 0, conf = 0.9\<rparr>, \<lparr>cls = 0, conf = 0.5\<rparr>, \<lparr>cls = 2, conf = 0.99\<rparr>]))
         Map.empty)
       = [LAST \<mapsto> Some [''Glioma Tumor'']]
   \<and> calls (handle_image
         (calm (Some [\<lparr>cls = 0, conf = 0.9\<rparr>, \<lparr>cls = 0, conf = 0.5\<rparr>, \<lparr>cls = 2, conf = 0.99\<rparr>]))
         Map.empty)
       = [SendMessage (''Scan received. Analyzing... '' @
                        [CHR 0xC3, CHR 0xB0, CHR 0xC5, CHR 0xB8, CHR 0xC2, CHR 0xA9, CHR 0xC2, CHR 0xBA]),
          ReplyPhoto (''**Analysis Complete.**'' @ [CHR 0x0A, CHR 0x0A] @
                      ''Potential findings:'' @ [CHR 0x0A] @
                      [CHR 0xC3, CHR 0xA2, CHR 0xE2, CHR 0x82, CHR 0xAC, CHR 0xC2, CHR 0xA2] @
                      '' Glioma Tumor (High Severity)'' @ [CHR 0x0A, CHR 0x0A] @
                      ''You can now ask me questions for more information.'')]"
proof -
  let ?ds = "[\<lparr>cls = 0, conf = 0.9\<rparr>, \<lparr>cls = 0, conf = 0.5\<rparr>, \<lparr>cls = 2, conf = 0.99\<rparr>]"
  have h1: "\<exists>b \<in> set ?ds. cls b \<noteq> 2" by simp
  have h2: "\<exists>b \<in> set ?ds. cls b = 2" by simp
  note t = mixed_detections [OF h1 h2, of Map.empty]
  have e: "dedup_first (map display_of [c \<leftarrow> map cls ?ds. c \<noteq> 2])
             = [''Glioma Tumor (High Severity)'']"
    by (simp add: dedup_first_def display_of_def class_name_of_def severity_of_def
          dict_get_def CLASS_NAMES_def SEVERITY_MAPPING_def)
  have n: "dedup_first (map class_name_of [c \<leftarrow> map cls ?ds. c \<noteq> 2]) = [''Glioma Tumor'']"
    by (simp add: dedup_first_def class_name_of_def dict_get_def CLASS_NAMES_def)
  have c1: "detected_tumors (interpret_boxes (Some ?ds)) = [''Glioma Tumor (High Severity)'']"
    using t [THEN conjunct1] unfolding e .
  have c2: "detected_tumor_names_for_chatbot (interpret_boxes (Some ?ds)) = [''Glioma Tumor'']"
    using t [THEN conjunct2, THEN conjunct1] unfolding n .
  have c5: "no_tumor_case_detected (interpret_boxes (Some ?ds))"
    using t [THEN conjunct2, THEN conjunct2, THEN conjunct2, THEN conjunct2, THEN conjunct1] .
  have c7: "data (handle_image (calm (Some ?ds)) Map.empty) = [LAST \<mapsto> Some [''Glioma Tumor'']]"
    using t [THEN conjunct2, THEN conjunct2, THEN conjunct2, THEN conjunct2, THEN conjunct2,
             THEN conjunct2, THEN conjunct1]
    unfolding n by simp
  have c8: "calls (handle_image (calm (Some ?ds)) Map.empty)
       = [SendMessage (''Scan received. Analyzing... '' @
                        [CHR 0xC3, CHR 0xB0, CHR 0xC5, CHR 0xB8, CHR 0xC2, CHR 0xA9, CHR 0xC2, CHR 0xBA]),
          ReplyPhoto (''**Analysis Complete.**'' @ [CHR 0x0A, CHR 0x0A] @
                      ''Potential findings:'' @ [CHR 0x0A] @
                      [CHR 0xC3, CHR 0xA2, CHR 0xE2, CHR 0x82, CHR 0xAC, CHR 0xC2, CHR 0xA2] @
                      '' Glioma Tumor (High Severity)'' @ [CHR 0x0A, CHR 0x0A] @
                      ''You can now ask me questions for more information.'')]"
    using t [THEN conjunct2, THEN conjunct2, THEN conjunct2, THEN conjunct2, THEN conjunct2,
             THEN conjunct2, THEN conjunct2, THEN conjunct1]
    unfolding e by simp
  show ?thesis
    using h1 h2 c1 c2 c5 c7 c8 by blast
qed

text \<open>
  C2. A non-empty detection sequence whose boxes are all of the reserved class 2 gives no
  finding and the flag set; the memory is cleared and the caption is the no-tumor message.
  The empty sequence gives no finding and the flag unset; the memory is cleared and the
  caption is the message that none of the trained conditions was detected. The two
  captions differ, and both replies are given in full.
\<close>

theorem reserved_only_and_empty:
  "(ds \<noteq> [] \<and> (\<forall>b \<in> set ds. cls b = 2) \<longrightarrow>
      detected_tumors (interpret_boxes (Some ds)) = []
    \<and> detected_tumor_names_for_chatbot (interpret_boxes (Some ds)) = []
    \<and> no_tumor_case_detected (interpret_boxes (Some ds))
    \<and> store_and_caption (interpret_boxes (Some ds)) ud = (no_tumor_caption, ud(LAST \<mapsto> None))
    \<and> handle_image (calm (Some ds)) ud
        = \<lparr>calls = [SendMessage scan_received_text, ReplyPhoto no_tumor_caption],
           data = ud(LAST \<mapsto> None), escaped = None\<rparr>
    \<and> user_data_get (data (handle_image (calm (Some ds)) ud)) LAST = None)
   \<and> detected_tumors (interpret_boxes (Some [])) = []
   \<and> detected_tumor_names_for_chatbot (interpret_boxes (Some [])) = []
   \<and> \<not> no_tumor_case_detected (interpret_boxes (Some []))
   \<and> store_and_caption (interpret_boxes (Some [])) ud
       = (nothing_detected_caption, ud(LAST \<mapsto> None))
   \<and> handle_image (calm (Some [])) ud
       = \<lparr>calls = [SendMessage scan_received_text, ReplyPhoto nothing_detected_caption],
          data = ud(LAST \<mapsto> None), escaped = None\<rparr>
   \<and> user_data_get (data (handle_image (calm (Some [])) ud)) LAST = None
   \<and> no_tumor_caption \<noteq> nothing_detected_caption
   \<and> (ds \<noteq> [] \<and> (\<forall>b \<in> set ds. cls b = 2) \<longrightarrow>
        calls (handle_image (calm (Some ds)) ud)
          = [SendMessage (''Scan received. Analyzing... '' @
                      [CHR 0xC3, CHR 0xB0, CHR 0xC5, CHR 0xB8, CHR 0xC2, CHR 0xA9, CHR 0xC2, CHR 0xBA]),
             ReplyPhoto ''Analysis complete. The scan indicates no tumor was found.''])
   \<and> calls (handle_image (calm (Some [])) ud)
       = [SendMessage (''Scan received. Analyzing... '' @
                      [CHR 0xC3, CHR 0xB0, CHR 0xC5, CHR 0xB8, CHR 0xC2, CHR 0xA9, CHR 0xC2, CHR 0xBA]),
          ReplyPhoto ''Analysis complete. I did not detect any of the conditions I'm trained to recognize in this scan.'']"
proof -
  have empty: "labels_of (Some []) = []" "genuine_ids (Some []) = []"
    by (simp_all add: labels_of_def genuine_ids_def dedup_first_def)
  have sc0: "store_and_caption (interpret_boxes (Some [])) ud
               = (nothing_detected_caption, ud(LAST \<mapsto> None))"
    by (simp add: store_and_caption_eq empty)
  have part2: "detected_tumors (interpret_boxes (Some [])) = []
     \<and> detected_tumor_names_for_chatbot (interpret_boxes (Some [])) = []
     \<and> \<not> no_tumor_case_detected (interpret_boxes (Some []))"
    by (simp add: interpret_boxes_eq empty dedup_first_def)
  have h0: "handle_image (calm (Some [])) ud
       = \<lparr>calls = [SendMessage scan_received_text, ReplyPhoto nothing_detected_caption],
          data = ud(LAST \<mapsto> None), escaped = None\<rparr>"
    unfolding handle_image_calm sc0 by simp
  have g0: "user_data_get (data (handle_image (calm (Some [])) ud)) LAST = None"
    unfolding h0 by (simp add: user_data_get_def)
  have diff: "no_tumor_caption \<noteq> nothing_detected_caption"
    by (simp add: no_tumor_caption_def nothing_detected_caption_def)
  have part1: "detected_tumors (interpret_boxes (Some ds)) = []
    \<and> detected_tumor_names_for_chatbot (interpret_boxes (Some ds)) = []
    \<and> no_tumor_case_detected (interpret_boxes (Some ds))
    \<and> store_and_caption (interpret_boxes (Some ds)) ud = (no_tumor_caption, ud(LAST \<mapsto> None))
    \<and> handle_image (calm (Some ds)) ud
        = \<lparr>calls = [SendMessage scan_received_text, ReplyPhoto no_tumor_caption],
           data = ud(LAST \<mapsto> None), escaped = None\<rparr>
    \<and> user_data_get (data (handle_image (calm (Some ds)) ud)) LAST = None"
    if ne: "ds \<noteq> []" and all: "\<forall>b \<in> set ds. cls b = 2"
  proof -
    have g: "genuine_ids (Some ds) = []"
      using all by (simp add: genuine_ids_Some filter_empty_conv)
    have l: "labels_of (Some ds) = []"
      by (simp add: labels_of_def g dedup_first_def)
    have two: "2 \<in> set (map cls ds)"
      using ne all by (cases ds) simp_all
    have sc: "store_and_caption (interpret_boxes (Some ds)) ud
                = (no_tumor_caption, ud(LAST \<mapsto> None))"
      using two by (simp add: store_and_caption_eq l)
    have h: "handle_image (calm (Some ds)) ud
        = \<lparr>calls = [SendMessage scan_received_text, ReplyPhoto no_tumor_caption],
           data = ud(LAST \<mapsto> None), escaped = None\<rparr>"
      unfolding handle_image_calm sc by simp
    have gt: "user_data_get (data (handle_image (calm (Some ds)) ud)) LAST = None"
      unfolding h by (simp add: user_data_get_def)
    show ?thesis
      using two sc h gt by (simp add: interpret_boxes_eq g l dedup_first_def)
  qed
  have n0: "calls (handle_image (calm (Some [])) ud)
       = [SendMessage (''Scan received. Analyzing... '' @
                      [CHR 0xC3, CHR 0xB0, CHR 0xC5, CHR 0xB8, CHR 0xC2, CHR 0xA9, CHR 0xC2, CHR 0xBA]),
          ReplyPhoto ''Analysis complete. I did not detect any of the conditions I'm trained to recognize in this scan.'']"
    unfolding h0 by (simp add: scan_received_text_def nothing_detected_caption_def)
  have n1: "calls (handle_image (calm (Some ds)) ud)
          = [SendMessage (''Scan received. Analyzing... '' @
                      [CHR 0xC3, CHR 0xB0, CHR 0xC5, CHR 0xB8, CHR 0xC2, CHR 0xA9, CHR 0xC2, CHR 0xBA]),
             ReplyPhoto ''Analysis complete. The scan indicates no tumor was found.'']"
    if ne: "ds \<noteq> []" and all: "\<forall>b \<in> set ds. cls b = 2"
  proof -
    have "handle_image (calm (Some ds)) ud
        = \<lparr>calls = [SendMessage scan_received_text, ReplyPhoto no_tumor_caption],
           data = ud(LAST \<mapsto> None), escaped = None\<rparr>"
      using part1 [OF ne all] by blast
    then show ?thesis
      by (simp add: scan_received_text_def no_tumor_caption_def)
  qed
  show ?thesis
    using part1 part2 sc0 h0 g0 diff n0 n1 by blast
qed

text \<open>
  The scenarios of C2, in a session whose memory held a label: one box of class 2, and no
  box at all.
\<close>

theorem reserved_only_and_empty_witness:
  "[\<lparr>cls = 2, conf = 0.95\<rparr>] \<noteq> [] \<and> map cls [\<lparr>cls = 2, conf = 0.95\<rparr>] = [2]
   \<and> detected_tumors (interpret_boxes (Some [\<lparr>cls = 2, conf = 0.95\<rparr>])) = []
   \<and> detected_tumor_names_for_chatbot (interpret_boxes (Some [\<lparr>cls = 2, conf = 0.95\<rparr>])) = []
   \<and> no_tumor_case_detected (interpret_boxes (Some [\<lparr>cls = 2, conf = 0.95\<rparr>]))
   \<and> calls (handle_image (calm (Some [\<lparr>cls = 2, conf = 0.95\<rparr>])) [LAST \<mapsto> Some [''Glioma Tumor'']])
       = [SendMessage (''Scan received. Analyzing... '' @
                      [CHR 0xC3, CHR 0xB0, CHR 0xC5, CHR 0xB8, CHR 0xC2, CHR 0xA9, CHR 0xC2, CHR 0xBA]),
          ReplyPhoto ''Analysis complete. The scan indicates no tumor was found.'']
   \<and> data (handle_image (calm (Some [\<lparr>cls = 2, conf = 0.95\<rparr>])) [LAST \<mapsto> Some [''Glioma Tumor'']])
       = [LAST \<mapsto> None]
   \<and> detected_tumors (interpret_boxes (Some [])) = []
   \<and> \<not> no_tumor_case_detected (interpret_boxes (Some []))
   \<and> calls (handle_image (calm (Some [])) [LAST \<mapsto> Some [''Glioma Tumor'']])
       = [SendMessage (''Scan received. Analyzing... '' @
                      [CHR 0xC3, CHR 0xB0, CHR 0xC5, CHR 0xB8, CHR 0xC2, CHR 0xA9, CHR 0xC2, CHR 0xBA]),
          ReplyPhoto ''Analysis complete. I did not detect any of the conditions I'm trained to recognize in this scan.'']
   \<and> data (handle_image (calm (Some [])) [LAST \<mapsto> Some [''Glioma Tumor'']])
       = [LAST \<mapsto> None]"
proof -
  let ?ds = "[\<lparr>cls = 2, conf = 0.95\<rparr>]"
  let ?ud = "[LAST \<mapsto> Some [''Glioma Tumor'']]"
  note t = reserved_only_and_empty [of ?ds ?ud]
  have hyp: "?ds \<noteq> [] \<and> (\<forall>b \<in> set ?ds. cls b = 2)"
    by simp
  note one = t [THEN conjunct1, THEN mp, OF hyp]
  have d1: "data (handle_image (calm (Some ?ds)) ?ud) = [LAST \<mapsto> None]"
    using one by simp
  have d0: "data (handle_image (calm (Some [])) ?ud) = [LAST \<mapsto> None]"
    using t by simp
  have e1: "detected_tumors (interpret_boxes (Some ?ds)) = []
     \<and> detected_tumor_names_for_chatbot (interpret_boxes (Some ?ds)) = []
     \<and> no_tumor_case_detected (interpret_boxes (Some ?ds))"
    using one by blast
  have e0: "detected_tumors (interpret_boxes (Some [])) = []
     \<and> \<not> no_tumor_case_detected (interpret_boxes (Some []))"
    using t by blast
  have c1: "calls (handle_image (calm (Some ?ds)) ?ud)
       = [SendMessage (''Scan received. Analyzing... '' @
                      [CHR 0xC3, CHR 0xB0, CHR 0xC5, CHR 0xB8, CHR 0xC2, CHR 0xA9, CHR 0xC2, CHR 0xBA]),
          ReplyPhoto ''Analysis complete. The scan indicates no tumor was found.'']"
    using t hyp by blast
  have c0: "calls (handle_image (calm (Some [])) ?ud)
       = [SendMessage (''Scan received. Analyzing... '' @
                      [CHR 0xC3, CHR 0xB0, CHR 0xC5, CHR 0xB8, CHR 0xC2, CHR 0xA9, CHR 0xC2, CHR 0xBA]),
          ReplyPhoto ''Analysis complete. I did not detect any of the conditions I'm trained to recognize in this scan.'']"
    using t by blast
  show ?thesis
    using d1 d0 e1 e0 c1 c0 by simp
qed

text \<open>
  C5. A box whose class index has no entry in the table of class names resolves to the
  sentinel label Unknown Type; the index has no entry in the severity table either, so the
  severity shown is the default Unknown Severity. The loop body appends the entry to both
  lists as it does for any class other than the reserved one, and leaves the flag as it is;
  the entry and the label are among the findings of every sequence holding the box.
\<close>

theorem unknown_class_id:
  assumes absent: "map_of CLASS_NAMES (cls b) = None"
  shows "dict_get CLASS_NAMES (cls b) ''Unknown Type'' = ''Unknown Type''
       \<and> map_of SEVERITY_MAPPING (cls b) = None
       \<and> dict_get SEVERITY_MAPPING (cls b) ''Unknown Severity'' = ''Unknown Severity''
       \<and> box_step f b
           = f\<lparr>detected_tumors := detected_tumors f @ [''Unknown Type (Unknown Severity)''],
               detected_tumor_names_for_chatbot :=
                 detected_tumor_names_for_chatbot f @ [''Unknown Type'']\<rparr>
       \<and> (b \<in> set ds \<longrightarrow>
            ''Unknown Type (Unknown Severity)'' \<in> set (detected_tumors (interpret_boxes (Some ds)))
          \<and> ''Unknown Type'' \<in> set (detected_tumor_names_for_chatbot (interpret_boxes (Some ds))))"
proof -
  have ids: "cls b \<noteq> 0 \<and> cls b \<noteq> 1 \<and> cls b \<noteq> 2 \<and> cls b \<noteq> 3"
    using absent by (simp add: CLASS_NAMES_def split: if_splits)
  have n: "class_name_of (cls b) = ''Unknown Type''"
    using absent by (simp add: class_name_of_def dict_get_def)
  have s: "map_of SEVERITY_MAPPING (cls b) = None"
    using ids by (simp add: SEVERITY_MAPPING_def)
  have sv: "severity_of (cls b) = ''Unknown Severity''"
    using s by (simp add: severity_of_def dict_get_def)
  have d: "display_of (cls b) = ''Unknown Type (Unknown Severity)''"
    by (simp add: display_of_def n sv)
  have step: "box_step f b
           = f\<lparr>detected_tumors := detected_tumors f @ [''Unknown Type (Unknown Severity)''],
               detected_tumor_names_for_chatbot :=
                 detected_tumor_names_for_chatbot f @ [''Unknown Type'']\<rparr>"
    using ids by (simp add: box_step_eq n d)
  have mem: "''Unknown Type (Unknown Severity)'' \<in> set (detected_tumors (interpret_boxes (Some ds)))
          \<and> ''Unknown Type'' \<in> set (detected_tumor_names_for_chatbot (interpret_boxes (Some ds)))"
    if "b \<in> set ds"
  proof -
    have "cls b \<in> set (genuine_ids (Some ds))"
      using that ids by (simp add: genuine_ids_def)
    then have "display_of (cls b) \<in> set (dedup_first (map display_of (genuine_ids (Some ds))))"
      and "class_name_of (cls b) \<in> set (labels_of (Some ds))"
      unfolding labels_of_def dedup_first_set by simp_all
    then show ?thesis
      by (simp add: interpret_boxes_eq n d)
  qed
  show ?thesis
    using n s sv step mem by (simp add: class_name_of_def severity_of_def)
qed

text \<open>The class index 7 is absent from the table; a sequence of one such box.\<close>

theorem unknown_class_id_witness:
  "map_of CLASS_NAMES (cls \<lparr>cls = 7, conf = 0.8\<rparr>) = None
   \<and> interpret_boxes (Some [\<lparr>cls = 7, conf = 0.8\<rparr>])
       = \<lparr>detected_tumors = [''Unknown Type (Unknown Severity)''],
          detected_tumor_names_for_chatbot = [''Unknown Type''],
          no_tumor_case_detected = False\<rparr>
   \<and> box_step no_findings \<lparr>cls = 7, conf = 0.8\<rparr>
       = \<lparr>detected_tumors = [''Unknown Type (Unknown Severity)''],
          detected_tumor_names_for_chatbot = [''Unknown Type''],
          no_tumor_case_detected = False\<rparr>"
proof -
  have h: "map_of CLASS_NAMES (cls \<lparr>cls = 7, conf = 0.8\<rparr>) = None"
    by (simp add: CLASS_NAMES_def)
  show ?thesis
    using h unknown_class_id [OF h, of no_findings "[\<lparr>cls = 7, conf = 0.8\<rparr>]"]
    by (simp add: no_findings_def interpret_boxes_eq labels_of_def genuine_ids_def dedup_first_def
          display_of_def class_name_of_def severity_of_def dict_get_def
          CLASS_NAMES_def SEVERITY_MAPPING_def)
qed

text \<open>
  C7. Removing, before the interpretation, the later boxes of every class index already
  met changes nothing: the findings, the flag, the caption and the stored label list are
  those of the whole sequence. The reduced sequence holds every class index once, in the
  order of first occurrence.
\<close>

theorem dedup_idempotent:
  "interpret_boxes (Some (first_of_class [] ds)) = interpret_boxes (Some ds)
   \<and> store_and_caption (interpret_boxes (Some (first_of_class [] ds))) ud
       = store_and_caption (interpret_boxes (Some ds)) ud
   \<and> map cls (first_of_class [] ds) = dedup_first (map cls ds)
   \<and> distinct (map cls (first_of_class [] ds))"
proof -
  have m: "map cls (first_of_class [] ds) = dedup_first (map cls ds)"
    by (simp add: map_cls_first_of_class dedup_first_def)
  have g: "genuine_ids (Some (first_of_class [] ds)) = [c \<leftarrow> dedup_first (map cls ds). c \<noteq> 2]"
    by (simp add: genuine_ids_def m)
  have "set (map cls (first_of_class [] ds)) = set (map cls ds)"
    by (simp only: m dedup_first_set)
  then have st: "cls ` set (first_of_class [] ds) = cls ` set ds"
    by simp
  have i: "interpret_boxes (Some (first_of_class [] ds)) = interpret_boxes (Some ds)"
    unfolding interpret_boxes_eq labels_of_def g
    by (simp add: dedup_first_map_filter st genuine_ids_def)
  show ?thesis
    by (simp add: i m dedup_first_distinct)
qed

text \<open>A sequence with the classes 0 and 3 repeated, and what it is reduced to.\<close>

theorem dedup_idempotent_witness:
  "first_of_class [] [\<lparr>cls = 0, conf = 0.9\<rparr>, \<lparr>cls = 3, conf = 0.7\<rparr>, \<lparr>cls = 0, conf = 0.5\<rparr>,
                      \<lparr>cls = 2, conf = 0.6\<rparr>, \<lparr>cls = 3, conf = 0.2\<rparr>]
     = [\<lparr>cls = 0, conf = 0.9\<rparr>, \<lparr>cls = 3, conf = 0.7\<rparr>, \<lparr>cls = 2, conf = 0.6\<rparr>]
   \<and> interpret_boxes (Some [\<lparr>cls = 0, conf = 0.9\<rparr>, \<lparr>cls = 3, conf = 0.7\<rparr>, \<lparr>cls = 0, conf = 0.5\<rparr>,
                      \<lparr>cls = 2, conf = 0.6\<rparr>, \<lparr>cls = 3, conf = 0.2\<rparr>])
     = \<lparr>detected_tumors = [''Glioma Tumor (High Severity)'', ''Pituitary Tumor (Medium Severity)''],
        detected_tumor_names_for_chatbot = [''Glioma Tumor'', ''Pituitary Tumor''],
        no_tumor_case_detected = True\<rparr>"
  using dedup_idempotent [of "[\<lparr>cls = 0, conf = 0.9\<rparr>, \<lparr>cls = 3, conf = 0.7\<rparr>, \<lparr>cls = 0, conf = 0.5\<rparr>,
                      \<lparr>cls = 2, conf = 0.6\<rparr>, \<lparr>cls = 3, conf = 0.2\<rparr>]" Map.empty]
  by (simp add: interpret_boxes_eq labels_of_def genuine_ids_def dedup_first_def
          display_of_def class_name_of_def severity_of_def dict_get_def
          CLASS_NAMES_def SEVERITY_MAPPING_def)

text \<open>
  C9. Two detection sequences whose class indices agree position by position give the same
  findings, the same flag, the same caption and stored memory, and the same outcome of the
  handler in every world that differs in the detected boxes only, whatever the confidence
  scores are.
\<close>

theorem confidence_independent:
  assumes same: "map cls ds1 = map cls ds2"
  shows "interpret_boxes (Some ds1) = interpret_boxes (Some ds2)
       \<and> store_and_caption (interpret_boxes (Some ds1)) ud
           = store_and_caption (interpret_boxes (Some ds2)) ud
       \<and> handle_image (w\<lparr>detect := Inr (Some ds1)\<rparr>) ud
           = handle_image (w\<lparr>detect := Inr (Some ds2)\<rparr>) ud"
proof -
  have "set (map cls ds1) = set (map cls ds2)"
    by (simp only: same)
  then have st: "cls ` set ds1 = cls ` set ds2"
    by simp
  have i: "interpret_boxes (Some ds1) = interpret_boxes (Some ds2)"
    by (simp add: interpret_boxes_eq labels_of_def genuine_ids_def same st)
  have sc: "store_and_caption (interpret_boxes (Some ds1)) ud
              = store_and_caption (interpret_boxes (Some ds2)) ud"
    by (simp add: i)
  have "image_try (w\<lparr>detect := Inr (Some ds1)\<rparr>) ud
          = image_try (w\<lparr>detect := Inr (Some ds2)\<rparr>) ud"
    by (simp add: image_try_def sc split: option.splits)
  then have h: "handle_image (w\<lparr>detect := Inr (Some ds1)\<rparr>) ud
           = handle_image (w\<lparr>detect := Inr (Some ds2)\<rparr>) ud"
    by (simp add: handle_image_def Let_def split: option.splits)
  show ?thesis
    using h by (simp add: i)
qed

text \<open>Two sequences with the class indices 1 and 2 and different scores.\<close>

theorem confidence_independent_witness:
  "map cls [\<lparr>cls = 1, conf = 0.9\<rparr>, \<lparr>cls = 2, conf = 0.3\<rparr>]
     = map cls [\<lparr>cls = 1, conf = 0.1\<rparr>, \<lparr>cls = 2, conf = 1\<rparr>]
   \<and> interpret_boxes (Some [\<lparr>cls = 1, conf = 0.9\<rparr>, \<lparr>cls = 2, conf = 0.3\<rparr>])
     = interpret_boxes (Some [\<lparr>cls = 1, conf = 0.1\<rparr>, \<lparr>cls = 2, conf = 1\<rparr>])
   \<and> handle_image (calm (Some [\<lparr>cls = 1, conf = 0.9\<rparr>, \<lparr>cls = 2, conf = 0.3\<rparr>])) Map.empty
     = handle_image (calm (Some [\<lparr>cls = 1, conf = 0.1\<rparr>, \<lparr>cls = 2, conf = 1\<rparr>])) Map.empty"
proof -
  have h: "map cls [\<lparr>cls = 1, conf = 0.9\<rparr>, \<lparr>cls = 2, conf = 0.3\<rparr>]
     = map cls [\<lparr>cls = 1, conf = 0.1\<rparr>, \<lparr>cls = 2, conf = 1\<rparr>]"
    by simp
  show ?thesis
    using h confidence_independent [OF h, where w = "calm None" and ud = Map.empty]
    by (simp add: calm_def)
qed

text \<open>
  C10. The flag is set exactly when some box of the sequence resolves, through the table of
  class names, to the label No-Tumor; the class index 2 is the only one that resolves to
  it, an index absent from the table resolves to Unknown Type, and without boxes the flag
  is unset.
\<close>

theorem flag_iff_reserved:
  "no_tumor_case_detected (interpret_boxes (Some ds))
     = (\<exists>b \<in> set ds. dict_get CLASS_NAMES (cls b) ''Unknown Type'' = ''No-Tumor'')
   \<and> (dict_get CLASS_NAMES c ''Unknown Type'' = ''No-Tumor'') = (c = 2)
   \<and> (map_of CLASS_NAMES c = None \<longrightarrow> dict_get CLASS_NAMES c ''Unknown Type'' = ''Unknown Type'')
   \<and> \<not> no_tumor_case_detected (interpret_boxes None)"
proof -
  have r: "(dict_get CLASS_NAMES k ''Unknown Type'' = ''No-Tumor'') = (k = 2)" for k
    using class_name_reserved [of k] by (simp add: class_name_of_def)
  have "no_tumor_case_detected (interpret_boxes (Some ds)) = (\<exists>b \<in> set ds. cls b = 2)"
    by (auto simp add: interpret_boxes_eq)
  then show ?thesis
    by (simp add: r interpret_boxes_eq) (simp add: dict_get_def)
qed

text \<open>
  A sequence with an absent index and the reserved one sets the flag; a sequence with an
  absent index and the three other known indices does not.
\<close>

theorem flag_iff_reserved_witness:
  "no_tumor_case_detected (interpret_boxes (Some [\<lparr>cls = 7, conf = 0.4\<rparr>, \<lparr>cls = 2, conf = 0.6\<rparr>]))
   \<and> \<not> no_tumor_case_detected
         (interpret_boxes (Some [\<lparr>cls = 7, conf = 0.4\<rparr>, \<lparr>cls = 0, conf = 0.6\<rparr>,
                                 \<lparr>cls = 1, conf = 0.6\<rparr>, \<lparr>cls = 3, conf = 0.6\<rparr>]))
   \<and> map_of CLASS_NAMES 7 = None
   \<and> dict_get CLASS_NAMES 7 ''Unknown Type'' = ''Unknown Type''"
  using flag_iff_reserved [of "[\<lparr>cls = 7, conf = 0.4\<rparr>, \<lparr>cls = 2, conf = 0.6\<rparr>]" 7]
    flag_iff_reserved [of "[\<lparr>cls = 7, conf = 0.4\<rparr>, \<lparr>cls = 0, conf = 0.6\<rparr>,
                                 \<lparr>cls = 1, conf = 0.6\<rparr>, \<lparr>cls = 3, conf = 0.6\<rparr>]" 7]
  by (simp add: dict_get_def CLASS_NAMES_def)

section \<open>Properties of a session\<close>

text \<open>
  C3. After any sequence of image and text events of a session, the memory read under the
  key of the last findings is what the most recent analysed image event left: the distinct
  labels of its boxes, first occurrences in order, or None when there are none; with no
  analysed image event it is what the session started with. No other key changes. A text
  event leaves the memory as it is. An image event that raises before the interpretation
  leaves it as it is, and an analysed one overwrites the key with the whole label list of
  that analysis, or with None, whatever it held before.
\<close>

theorem memory_is_last_analysis:
  "user_data_get (run evs ud) LAST =
     (case last_analysis evs of
        None \<Rightarrow> user_data_get ud LAST
      | Some boxes \<Rightarrow>
          if dedup_first (map class_name_of (genuine_ids boxes)) = [] then None
          else Some (dedup_first (map class_name_of (genuine_ids boxes))))
   \<and> (\<forall>k. k \<noteq> LAST \<longrightarrow> run evs ud k = ud k)
   \<and> data (handle_text tw q ud) = ud
   \<and> (analysed iw = None \<longrightarrow> data (handle_image iw ud) = ud)
   \<and> (analysed iw = Some boxes \<longrightarrow>
        detected_tumor_names_for_chatbot (interpret_boxes boxes)
          = dedup_first (map class_name_of (genuine_ids boxes))
      \<and> data (handle_image iw ud)
          = ud(LAST \<mapsto>
               if detected_tumor_names_for_chatbot (interpret_boxes boxes) = [] then None
               else Some (detected_tumor_names_for_chatbot (interpret_boxes boxes))))"
proof -
  have a: "user_data_get (run evs ud) LAST =
     (case last_analysis evs of
        None \<Rightarrow> user_data_get ud LAST
      | Some boxes \<Rightarrow>
          if dedup_first (map class_name_of (genuine_ids boxes)) = [] then None
          else Some (dedup_first (map class_name_of (genuine_ids boxes))))"
    by (simp add: run_memory memory_after_def labels_of_def split: option.splits)
  have b: "\<forall>k. k \<noteq> LAST \<longrightarrow> run evs ud k = ud k"
    by (simp add: run_other_keys)
  have c: "analysed iw = None \<longrightarrow> data (handle_image iw ud) = ud"
    by (simp add: data_handle_image)
  have d: "analysed iw = Some boxes \<longrightarrow>
        detected_tumor_names_for_chatbot (interpret_boxes boxes)
          = dedup_first (map class_name_of (genuine_ids boxes))
      \<and> data (handle_image iw ud)
          = ud(LAST \<mapsto>
               if detected_tumor_names_for_chatbot (interpret_boxes boxes) = [] then None
               else Some (detected_tumor_names_for_chatbot (interpret_boxes boxes)))"
    by (simp add: data_handle_image interpret_boxes_eq memory_after_def labels_of_def)
  show ?thesis
    using a b c d data_handle_text [of tw q ud] by blast
qed

text \<open>
  A session: an image with classes 1 and 3, an image with classes 0, 0 and 2, a question,
  an image that cannot be decoded, a question whose generation fails. The memory holds the
  label of the second image.
\<close>

theorem memory_is_last_analysis_witness:
  "user_data_get (run [Image (calm (Some [\<lparr>cls = 1, conf = 0.8\<rparr>, \<lparr>cls = 3, conf = 0.7\<rparr>])),
        Image (calm (Some [\<lparr>cls = 0, conf = 0.9\<rparr>, \<lparr>cls = 0, conf = 0.5\<rparr>, \<lparr>cls = 2, conf = 0.99\<rparr>])),
        Text \<lparr>thinking_send = None, generate_content = (\<lambda>p. Inr ''It depends.''),
              answer_edit = None, fallback_edit = None\<rparr> ''is this dangerous?'',
        Image ((calm None)\<lparr>download := Some (Exn ''cannot identify image file'')\<rparr>),
        Text \<lparr>thinking_send = None, generate_content = (\<lambda>p. Inl (Exn ''quota'')),
              answer_edit = None, fallback_edit = None\<rparr> ''and now?'']
       Map.empty) LAST
     = Some [''Glioma Tumor'']"
proof -
  let ?evs =
    "[Image (calm (Some [\<lparr>cls = 1, conf = 0.8\<rparr>, \<lparr>cls = 3, conf = 0.7\<rparr>])),
      Image (calm (Some [\<lparr>cls = 0, conf = 0.9\<rparr>, \<lparr>cls = 0, conf = 0.5\<rparr>, \<lparr>cls = 2, conf = 0.99\<rparr>])),
      Text \<lparr>thinking_send = None, generate_content = (\<lambda>p. Inr ''It depends.''),
            answer_edit = None, fallback_edit = None\<rparr> ''is this dangerous?'',
      Image ((calm None)\<lparr>download := Some (Exn ''cannot identify image file'')\<rparr>),
      Text \<lparr>thinking_send = None, generate_content = (\<lambda>p. Inl (Exn ''quota'')),
            answer_edit = None, fallback_edit = None\<rparr> ''and now?'']"
  have la: "last_analysis ?evs
              = Some (Some [\<lparr>cls = 0, conf = 0.9\<rparr>, \<lparr>cls = 0, conf = 0.5\<rparr>, \<lparr>cls = 2, conf = 0.99\<rparr>])"
    by (simp add: analysed_def calm_def)
  show ?thesis
    unfolding memory_is_last_analysis [of ?evs Map.empty, THEN conjunct1] la
    by (simp add: genuine_ids_def dedup_first_def class_name_of_def dict_get_def CLASS_NAMES_def)
qed

section \<open>Errors in the image handler\<close>




section \<open>Properties of the text handler\<close>

text \<open>
  C4, as stated, fails in two ways. When the generation is interrupted, what is raised is
  not an Exception: the clause of line 180 does not catch it, it leaves the handler and no
  answer is submitted. And when the generation returns but the edit that delivers the
  answer raises, the last answer submitted is the fallback message, not the generated text.
\<close>

theorem generation_interrupted:
  "handle_text
     \<lparr>thinking_send = None, generate_content = (\<lambda>p. Inl (BaseExn ''KeyboardInterrupt'')),
      answer_edit = None, fallback_edit = None\<rparr>
     ''is this dangerous?'' [LAST \<mapsto> Some [''Meningioma Tumor'']]
   = \<lparr>calls = [SendMessage (''Consulting knowledge base... '' @
                      [CHR 0xC3, CHR 0xB0, CHR 0xC5, CHR 0xB8, CHR 0xC2, CHR 0xA7, CHR 0xC2, CHR 0xA0]),
               GenerateContent (build_prompt (Some [''Meningioma Tumor'']) ''is this dangerous?'')],
      data = [LAST \<mapsto> Some [''Meningioma Tumor'']],
      escaped = Some (BaseExn ''KeyboardInterrupt'')\<rparr>
   \<and> handle_text
     \<lparr>thinking_send = None, generate_content = (\<lambda>p. Inr ''It is usually benign.''),
      answer_edit = Some (Exn ''Can't parse entities''), fallback_edit = None\<rparr>
     ''is this dangerous?'' [LAST \<mapsto> Some [''Meningioma Tumor'']]
   = \<lparr>calls = [SendMessage (''Consulting knowledge base... '' @
                      [CHR 0xC3, CHR 0xB0, CHR 0xC5, CHR 0xB8, CHR 0xC2, CHR 0xA7, CHR 0xC2, CHR 0xA0]),
               GenerateContent (build_prompt (Some [''Meningioma Tumor'']) ''is this dangerous?''),
               EditMessageText (''It is usually benign.'' @
            [CHR 0x0A, CHR 0x0A] @
            ''**Important Disclaimer:** I am an AI assistant, not a medical professional. This information is for educational purposes only. Please consult a qualified doctor for diagnosis and medical advice.''),
               EditMessageText (''I'm having trouble accessing my knowledge base right now. Please try again later.'' @
            [CHR 0x0A, CHR 0x0A] @
            ''**Important Disclaimer:** I am an AI assistant, not a medical professional. This information is for educational purposes only. Please consult a qualified doctor for diagnosis and medical advice.'')],
      data = [LAST \<mapsto> Some [''Meningioma Tumor'']],
      escaped = None\<rparr>"
  by (simp add: handle_text_def Let_def user_data_get_def thinking_text_def disclaimer_def
        NL_def fallback_text_def)

text \<open>
  C4, amended. Every text the handler submits as its answer ends with the disclaimer.
  When the hosted model is called and returns a text, the answer submitted is that text
  followed by the disclaimer; when the edit that delivers it raises an Exception, the
  fallback message followed by the disclaimer is submitted after it. When the hosted model
  is called and raises an Exception, the exception is caught and the answer is the fallback
  message followed by the disclaimer; what can leave the handler then is what the edit
  that delivers the fallback raises, not what the generation raised. What is raised and is
  not an Exception leaves the handler, and no fallback is submitted.
\<close>

theorem reply_ends_with_disclaimer:
  "(\<forall>c. EditMessageText c \<in> set (calls (handle_text w q ud)) \<longrightarrow>
        (\<exists>t. c = t @
            [CHR 0x0A, CHR 0x0A] @
            ''**Important Disclaimer:** I am an AI assistant, not a medical professional. This information is for educational purposes only. Please consult a qualified doctor for diagnosis and medical advice.''))
   \<and> (GenerateContent p \<in> set (calls (handle_text w q ud))
        \<and> generate_content w p = Inr generated \<longrightarrow>
      take 3 (calls (handle_text w q ud))
        = [SendMessage (''Consulting knowledge base... '' @
                      [CHR 0xC3, CHR 0xB0, CHR 0xC5, CHR 0xB8, CHR 0xC2, CHR 0xA7, CHR 0xC2, CHR 0xA0]),
           GenerateContent p,
           EditMessageText (generated @
            [CHR 0x0A, CHR 0x0A] @
            ''**Important Disclaimer:** I am an AI assistant, not a medical professional. This information is for educational purposes only. Please consult a qualified doctor for diagnosis and medical advice.'')]
    \<and> (answer_edit w = None \<longrightarrow>
          calls (handle_text w q ud) = take 3 (calls (handle_text w q ud))
        \<and> escaped (handle_text w q ud) = None)
    \<and> (answer_edit w = Some (Exn m) \<longrightarrow>
          calls (handle_text w q ud)
            = take 3 (calls (handle_text w q ud)) @
              [EditMessageText (''I'm having trouble accessing my knowledge base right now. Please try again later.'' @
            [CHR 0x0A, CHR 0x0A] @
            ''**Important Disclaimer:** I am an AI assistant, not a medical professional. This information is for educational purposes only. Please consult a qualified doctor for diagnosis and medical advice.'')]
        \<and> escaped (handle_text w q ud) = fallback_edit w)
    \<and> (answer_edit w = Some (BaseExn m) \<longrightarrow>
          calls (handle_text w q ud) = take 3 (calls (handle_text w q ud))
        \<and> escaped (handle_text w q ud) = Some (BaseExn m)))
   \<and> (GenerateContent p \<in> set (calls (handle_text w q ud))
        \<and> generate_content w p = Inl (Exn m) \<longrightarrow>
      handle_text w q ud
        = \<lparr>calls = [SendMessage (''Consulting knowledge base... '' @
                      [CHR 0xC3, CHR 0xB0, CHR 0xC5, CHR 0xB8, CHR 0xC2, CHR 0xA7, CHR 0xC2, CHR 0xA0]),
                    GenerateContent p,
                    EditMessageText (''I'm having trouble accessing my knowledge base right now. Please try again later.'' @
            [CHR 0x0A, CHR 0x0A] @
            ''**Important Disclaimer:** I am an AI assistant, not a medical professional. This information is for educational purposes only. Please consult a qualified doctor for diagnosis and medical advice.'')],
           data = ud, escaped = fallback_edit w\<rparr>)
   \<and> (GenerateContent p \<in> set (calls (handle_text w q ud))
        \<and> generate_content w p = Inl (BaseExn m) \<longrightarrow>
      handle_text w q ud
        = \<lparr>calls = [SendMessage (''Consulting knowledge base... '' @
                      [CHR 0xC3, CHR 0xB0, CHR 0xC5, CHR 0xB8, CHR 0xC2, CHR 0xA7, CHR 0xC2, CHR 0xA0]),
                    GenerateContent p],
           data = ud, escaped = Some (BaseExn m)\<rparr>)"
proof -
  have d: "disclaimer =
            [CHR 0x0A, CHR 0x0A] @
            ''**Important Disclaimer:** I am an AI assistant, not a medical professional. This information is for educational purposes only. Please consult a qualified doctor for diagnosis and medical advice.''"
    by (simp add: disclaimer_def NL_def)
  have a: "\<forall>c. EditMessageText c \<in> set (calls (handle_text w q ud)) \<longrightarrow>
              (\<exists>t. c = t @ disclaimer)"
    by (auto simp add: handle_text_def Let_def split: option.splits sum.splits)
  have sent: "thinking_send w = None \<and> p = build_prompt (user_data_get ud LAST) q"
    if "GenerateContent p \<in> set (calls (handle_text w q ud))"
    using that
    by (auto simp add: handle_text_def Let_def split: option.splits sum.splits if_splits)
  have ok: "take 3 (calls (handle_text w q ud))
        = [SendMessage thinking_text, GenerateContent p, EditMessageText (generated @ disclaimer)]
    \<and> (answer_edit w = None \<longrightarrow>
          calls (handle_text w q ud) = take 3 (calls (handle_text w q ud))
        \<and> escaped (handle_text w q ud) = None)
    \<and> (answer_edit w = Some (Exn m) \<longrightarrow>
          calls (handle_text w q ud)
            = take 3 (calls (handle_text w q ud)) @
              [EditMessageText (fallback_text @ disclaimer)]
        \<and> escaped (handle_text w q ud) = fallback_edit w)
    \<and> (answer_edit w = Some (BaseExn m) \<longrightarrow>
          calls (handle_text w q ud) = take 3 (calls (handle_text w q ud))
        \<and> escaped (handle_text w q ud) = Some (BaseExn m))"
    if "GenerateContent p \<in> set (calls (handle_text w q ud))"
      and "generate_content w p = Inr generated"
  proof (cases "answer_edit w")
    case None
    then show ?thesis
      using sent [OF that(1)] that(2) by (simp add: handle_text_def Let_def)
  next
    case (Some x)
    then show ?thesis
      using sent [OF that(1)] that(2) by (cases x) (simp_all add: handle_text_def Let_def)
  qed
  have fail: "handle_text w q ud
        = \<lparr>calls = [SendMessage thinking_text, GenerateContent p,
                    EditMessageText (fallback_text @ disclaimer)],
           data = ud, escaped = fallback_edit w\<rparr>"
    if "GenerateContent p \<in> set (calls (handle_text w q ud))"
      and "generate_content w p = Inl (Exn m)"
    using sent [OF that(1)] that(2) by (simp add: handle_text_def Let_def)
  have through: "handle_text w q ud
        = \<lparr>calls = [SendMessage thinking_text, GenerateContent p],
           data = ud, escaped = Some (BaseExn m)\<rparr>"
    if "GenerateContent p \<in> set (calls (handle_text w q ud))"
      and "generate_content w p = Inl (BaseExn m)"
    using sent [OF that(1)] that(2) by (simp add: handle_text_def Let_def)
  have th: "thinking_text = ''Consulting knowledge base... '' @
                      [CHR 0xC3, CHR 0xB0, CHR 0xC5, CHR 0xB8, CHR 0xC2, CHR 0xA7, CHR 0xC2, CHR 0xA0]"
    by (simp add: thinking_text_def)
  have fb: "fallback_text = ''I'm having trouble accessing my knowledge base right now. Please try again later.''"
    by (simp add: fallback_text_def)
  show ?thesis
    using a ok fail through unfolding d th fb by blast
qed

text \<open>
  The scenario of the specification: the memory holds Meningioma Tumor and the generation
  fails with an Exception; and the same question with a generation that returns.
\<close>

theorem reply_ends_with_disclaimer_witness:
  "handle_text
     \<lparr>thinking_send = None, generate_content = (\<lambda>p. Inl (Exn ''429 quota exceeded'')),
      answer_edit = None, fallback_edit = None\<rparr>
     ''is this dangerous?'' [LAST \<mapsto> Some [''Meningioma Tumor'']]
   = \<lparr>calls = [SendMessage (''Consulting knowledge base... '' @
                      [CHR 0xC3, CHR 0xB0, CHR 0xC5, CHR 0xB8, CHR 0xC2, CHR 0xA7, CHR 0xC2, CHR 0xA0]),
               GenerateContent (build_prompt (Some [''Meningioma Tumor'']) ''is this dangerous?''),
               EditMessageText (''I'm having trouble accessing my knowledge base right now. Please try again later.'' @
            [CHR 0x0A, CHR 0x0A] @
            ''**Important Disclaimer:** I am an AI assistant, not a medical professional. This information is for educational purposes only. Please consult a qualified doctor for diagnosis and medical advice.'')],
      data = [LAST \<mapsto> Some [''Meningioma Tumor'']], escaped = None\<rparr>
   \<and> calls (handle_text
     \<lparr>thinking_send = None, generate_content = (\<lambda>p. Inr ''It is usually benign.''),
      answer_edit = None, fallback_edit = None\<rparr>
     ''is this dangerous?'' [LAST \<mapsto> Some [''Meningioma Tumor'']])
   = [SendMessage (''Consulting knowledge base... '' @
                      [CHR 0xC3, CHR 0xB0, CHR 0xC5, CHR 0xB8, CHR 0xC2, CHR 0xA7, CHR 0xC2, CHR 0xA0]),
      GenerateContent (build_prompt (Some [''Meningioma Tumor'']) ''is this dangerous?''),
      EditMessageText (''It is usually benign.'' @
            [CHR 0x0A, CHR 0x0A] @
            ''**Important Disclaimer:** I am an AI assistant, not a medical professional. This information is for educational purposes only. Please consult a qualified doctor for diagnosis and medical advice.'')]
   \<and> escaped (handle_text
     \<lparr>thinking_send = None, generate_content = (\<lambda>p. Inr ''It is usually benign.''),
      answer_edit = None, fallback_edit = None\<rparr>
     ''is this dangerous?'' [LAST \<mapsto> Some [''Meningioma Tumor'']]) = None"
proof -
  let ?wf = "\<lparr>thinking_send = None, generate_content = (\<lambda>p. Inl (Exn ''429 quota exceeded'')),
      answer_edit = None, fallback_edit = None\<rparr>"
  let ?ws = "\<lparr>thinking_send = None, generate_content = (\<lambda>p. Inr ''It is usually benign.''),
      answer_edit = None, fallback_edit = None\<rparr>"
  let ?q = "''is this dangerous?''"
  let ?ud = "[LAST \<mapsto> Some [''Meningioma Tumor'']]"
  let ?p = "build_prompt (Some [''Meningioma Tumor'']) ''is this dangerous?''"
  have gf: "GenerateContent ?p \<in> set (calls (handle_text ?wf ?q ?ud))
              \<and> generate_content ?wf ?p = Inl (Exn ''429 quota exceeded'')"
    by (simp add: handle_text_def Let_def user_data_get_def)
  have gs: "GenerateContent ?p \<in> set (calls (handle_text ?ws ?q ?ud))
              \<and> generate_content ?ws ?p = Inr ''It is usually benign.''"
    by (simp add: handle_text_def Let_def user_data_get_def)
  have a: "handle_text ?wf ?q ?ud
   = \<lparr>calls = [SendMessage (''Consulting knowledge base... '' @
                      [CHR 0xC3, CHR 0xB0, CHR 0xC5, CHR 0xB8, CHR 0xC2, CHR 0xA7, CHR 0xC2, CHR 0xA0]),
               GenerateContent ?p,
               EditMessageText (''I'm having trouble accessing my knowledge base right now. Please try again later.'' @
            [CHR 0x0A, CHR 0x0A] @
            ''**Important Disclaimer:** I am an AI assistant, not a medical professional. This information is for educational purposes only. Please consult a qualified doctor for diagnosis and medical advice.'')],
      data = ?ud, escaped = None\<rparr>"
    using reply_ends_with_disclaimer
            [where w = ?wf and q = ?q and ud = ?ud and p = ?p and m = "''429 quota exceeded''",
             THEN conjunct2, THEN conjunct2, THEN conjunct1, THEN mp, OF gf]
    by simp
  note s = reply_ends_with_disclaimer
            [where w = ?ws and q = ?q and ud = ?ud and p = ?p and generated = "''It is usually benign.''",
             THEN conjunct2, THEN conjunct1, THEN mp, OF gs]
  have b: "calls (handle_text ?ws ?q ?ud)
   = [SendMessage (''Consulting knowledge base... '' @
                      [CHR 0xC3, CHR 0xB0, CHR 0xC5, CHR 0xB8, CHR 0xC2, CHR 0xA7, CHR 0xC2, CHR 0xA0]),
      GenerateContent ?p,
      EditMessageText (''It is usually benign.'' @
            [CHR 0x0A, CHR 0x0A] @
            ''**Important Disclaimer:** I am an AI assistant, not a medical professional. This information is for educational purposes only. Please consult a qualified doctor for diagnosis and medical advice.'')]
   \<and> escaped (handle_text ?ws ?q ?ud) = None"
    using s [THEN conjunct1] s [THEN conjunct2, THEN conjunct1] by simp
  show ?thesis
    using a b by simp
qed

text \<open>
  C8. The only prompt the handler sends to the hosted model is the one built from the
  memory and the question, and it is sent whenever the first message went out. For a
  stored list that is not empty the prompt names the labels, joined by a comma and a space,
  as what the scan analysis has indicated; for an empty list, a stored None or an absent
  key it has the general framing. In both cases it carries the fixed instruction and the
  question as typed.
\<close>

theorem prompt_carries_memory:
  "(GenerateContent p \<in> set (calls (handle_text w q ud)))
     = (thinking_send w = None \<and> p = build_prompt (user_data_get ud LAST) q)
   \<and> build_prompt (Some (x # xs)) q
       = ''You are a helpful medical information AI. '' @
         ''A user's brain scan analysis has indicated a potential '' @ [CHR 0x27] @
         join '', '' (x # xs) @ [CHR 0x27] @
         ''. The user is now asking a follow-up question.'' @
         '' Answer their question in a clear, simple, and reassuring tone. Provide general information only.'' @
         NL @ NL @ ''User's Question: '' @ [CHR 0x27] @ q @ [CHR 0x27]
   \<and> build_prompt (Some []) q = build_prompt None q
   \<and> build_prompt None q
       = ''You are a helpful medical information AI. '' @
         ''A user is asking a general question about brain tumors.'' @
         '' Answer their question in a clear, simple, and reassuring tone. Provide general information only.'' @
         NL @ NL @ ''User's Question: '' @ [CHR 0x27] @ q @ [CHR 0x27]
   \<and> (user_data_get ud LAST = None) = (ud LAST = None \<or> ud LAST = Some None)"
proof -
  have a: "(GenerateContent p \<in> set (calls (handle_text w q ud)))
     = (thinking_send w = None \<and> p = build_prompt (user_data_get ud LAST) q)"
    by (auto simp add: handle_text_def Let_def split: option.splits sum.splits)
  have b: "(user_data_get ud LAST = None) = (ud LAST = None \<or> ud LAST = Some None)"
    by (auto simp add: user_data_get_def split: option.splits)
  show ?thesis
    using a b by (simp add: build_prompt_def prompt_context_def)
qed

text \<open>
  The scenario of the specification, with the label Meningioma Tumor in the memory, and
  the prompt for a memory of two labels.
\<close>

theorem prompt_carries_memory_witness:
  "GenerateContent
      (''You are a helpful medical information AI. A user's brain scan analysis has indicated a potential '' @
       [CHR 0x27] @ ''Meningioma Tumor'' @ [CHR 0x27] @
       ''. The user is now asking a follow-up question. Answer their question in a clear, simple, and reassuring tone. Provide general information only.'' @
       NL @ NL @ ''User's Question: '' @ [CHR 0x27] @ ''is this dangerous?'' @ [CHR 0x27])
     \<in> set (calls (handle_text
         \<lparr>thinking_send = None, generate_content = (\<lambda>p. Inl (Exn ''429 quota exceeded'')),
          answer_edit = None, fallback_edit = None\<rparr>
         ''is this dangerous?'' [LAST \<mapsto> Some [''Meningioma Tumor'']]))
   \<and> build_prompt (Some [''Glioma Tumor'', ''Pituitary Tumor'']) ''what next?''
   = ''You are a helpful medical information AI. A user's brain scan analysis has indicated a potential '' @
       [CHR 0x27] @ ''Glioma Tumor, Pituitary Tumor'' @ [CHR 0x27] @
       ''. The user is now asking a follow-up question. Answer their question in a clear, simple, and reassuring tone. Provide general information only.'' @
       NL @ NL @ ''User's Question: '' @ [CHR 0x27] @ ''what next?'' @ [CHR 0x27]"
  using prompt_carries_memory
      [where p = "''You are a helpful medical information AI. A user's brain scan analysis has indicated a potential '' @
       [CHR 0x27] @ ''Meningioma Tumor'' @ [CHR 0x27] @
       ''. The user is now asking a follow-up question. Answer their question in a clear, simple, and reassuring tone. Provide general information only.'' @
       NL @ NL @ ''User's Question: '' @ [CHR 0x27] @ ''is this dangerous?'' @ [CHR 0x27]"
         and w = "\<lparr>thinking_send = None, generate_content = (\<lambda>p. Inl (Exn ''429 quota exceeded'')),
          answer_edit = None, fallback_edit = None\<rparr>"
         and q = "''is this dangerous?''" and ud = "[LAST \<mapsto> Some [''Meningioma Tumor'']]"
         and x = "''Meningioma Tumor''" and xs = "[]"]
    prompt_carries_memory
      [where w = "\<lparr>thinking_send = None, generate_content = (\<lambda>p. Inl (Exn ''429 quota exceeded'')),
          answer_edit = None, fallback_edit = None\<rparr>"
         and q = "''what next?''" and x = "''Glioma Tumor''" and xs = "[''Pituitary Tumor'']"]
  by (simp add: user_data_get_def)

end
